theory Spec2Isabelle
  imports Complex_Main
begin

section \<open>Python values\<close>

text \<open>
  The handlers of \<^verbatim>\<open>main.py\<close> receive decoded JSON: \<^verbatim>\<open>Dict[str, Any]\<close>. A value is
  one of Python's \<^verbatim>\<open>None\<close>, \<^verbatim>\<open>bool\<close>, \<^verbatim>\<open>int\<close> (unbounded), \<^verbatim>\<open>float\<close>, \<^verbatim>\<open>str\<close>,
  \<^verbatim>\<open>list\<close> and \<^verbatim>\<open>dict\<close> with string keys. A dict is an association list in insertion
  order; a lookup takes the first binding of a key. A string is the UTF-8 encoding
  of its text, and its characters are counted as code points. The limits of memory are
  not represented.

  A float is either a finite number, carried as the real number it denotes, or one of
  \<^verbatim>\<open>inf\<close>, \<^verbatim>\<open>-inf\<close>, \<^verbatim>\<open>nan\<close>. Arithmetic on finite floats is taken as exact: the rounding
  of binary64 to 53 bits and the sign of zero are not represented. What is represented is
  the range: a result whose magnitude reaches \<open>float_ovf\<close> becomes an infinity, or raises
  \<^verbatim>\<open>OverflowError\<close> in the operations where Python raises.
\<close>

datatype pyfloat = Fin real | PInf | NInf | NaN

datatype json =
    JNull
  | JBool bool
  | JInt int
  | JFloat pyfloat
  | JStr string
  | JList "json list"
  | JDict "(string \<times> json) list"

type_synonym pydict = "(string \<times> json) list"

text \<open>
  Exceptions. \<open>HTTPException status_code detail\<close> is the one the source raises itself;
  the others are raised by Python's built-in operations and leave the handler uncaught.
\<close>

datatype pyexc =
    HTTPException nat string
  | TypeError
  | ValueError
  | OverflowError
  | KeyError
  | IndexError
  | ZeroDivisionError

fun andThen :: "pyexc + 'a \<Rightarrow> ('a \<Rightarrow> pyexc + 'b) \<Rightarrow> pyexc + 'b" where
  "andThen (Inl e) f = Inl e"
| "andThen (Inr v) f = f v"

subsection \<open>Floats\<close>

text \<open>
  The least magnitude that binary64 rounds to an infinity: halfway between the largest
  finite double \<open>2^1024 - 2^971\<close> and \<open>2^1024\<close>.
\<close>

definition float_ovf :: real where
  "float_ovf = 2 ^ 1024 - 2 ^ 970"

definition fl :: "real \<Rightarrow> pyfloat" where
  "fl r = (if float_ovf \<le> r then PInf else if r \<le> - float_ovf then NInf else Fin r)"

fun fneg :: "pyfloat \<Rightarrow> pyfloat" where
  "fneg (Fin r) = Fin (- r)"
| "fneg PInf = NInf"
| "fneg NInf = PInf"
| "fneg NaN = NaN"

fun fadd :: "pyfloat \<Rightarrow> pyfloat \<Rightarrow> pyfloat" where
  "fadd (Fin a) (Fin b) = fl (a + b)"
| "fadd NaN y = NaN"
| "fadd x NaN = NaN"
| "fadd PInf NInf = NaN"
| "fadd NInf PInf = NaN"
| "fadd PInf y = PInf"
| "fadd NInf y = NInf"
| "fadd x PInf = PInf"
| "fadd x NInf = NInf"

definition fsub :: "pyfloat \<Rightarrow> pyfloat \<Rightarrow> pyfloat" where
  "fsub x y = fadd x (fneg y)"

fun fsign :: "pyfloat \<Rightarrow> real" where
  "fsign (Fin r) = sgn r"
| "fsign PInf = 1"
| "fsign NInf = - 1"
| "fsign NaN = 0"

fun fmul :: "pyfloat \<Rightarrow> pyfloat \<Rightarrow> pyfloat" where
  "fmul (Fin a) (Fin b) = fl (a * b)"
| "fmul x y =
     (if x = NaN \<or> y = NaN then NaN
      else let s = fsign x * fsign y in if s = 0 then NaN else if 0 < s then PInf else NInf)"

text \<open>
  \<^verbatim>\<open>x ** 2\<close> on a float: CPython's \<^verbatim>\<open>float_pow\<close> answers the infinities and \<^verbatim>\<open>nan\<close>
  itself and raises \<^verbatim>\<open>OverflowError\<close> when the C library reports a range error on a
  finite base.
\<close>

fun float_sq :: "pyfloat \<Rightarrow> pyexc + pyfloat" where
  "float_sq (Fin r) = (if float_ovf \<le> r ^ 2 then Inl OverflowError else Inr (Fin (r ^ 2)))"
| "float_sq PInf = Inr PInf"
| "float_sq NInf = Inr PInf"
| "float_sq NaN = Inr NaN"

text \<open>
  \<^verbatim>\<open>x ** 0.5\<close> on a float. For a negative finite base Python answers with a complex
  number; the only base this program raises to \<open>0.5\<close> is a sum of two squares, which is
  never negative (lemma \<open>sum_sq_cases\<close> below), so that case is outside the model.
\<close>

fun float_root :: "pyfloat \<Rightarrow> pyexc + pyfloat" where
  "float_root (Fin r) = Inr (Fin (sqrt r))"
| "float_root PInf = Inr PInf"
| "float_root NInf = Inr PInf"
| "float_root NaN = Inr NaN"

text \<open>\<^verbatim>\<open>float(n)\<close> and the implicit conversion of an int operand next to a float.\<close>

definition int_to_float :: "int \<Rightarrow> pyexc + pyfloat" where
  "int_to_float n =
     (if float_ovf \<le> \<bar>real_of_int n\<bar> then Inl OverflowError else Inr (Fin (real_of_int n)))"

text \<open>\<^verbatim>\<open>a / b\<close> on two ints: true division, a float.\<close>

definition int_truediv :: "int \<Rightarrow> int \<Rightarrow> pyexc + pyfloat" where
  "int_truediv a b =
     (if b = 0 then Inl ZeroDivisionError
      else if float_ovf \<le> \<bar>real_of_int a / real_of_int b\<bar> then Inl OverflowError
      else Inr (Fin (real_of_int a / real_of_int b)))"

subsection \<open>Library behaviour left open\<close>

text \<open>
  Four pieces of Python's library are not fixed by this repository and are not needed
  for a number given as a JSON number: parsing a string as an int or as a float
  (\<^verbatim>\<open>int(s)\<close>, \<^verbatim>\<open>float(s)\<close>; \<open>None\<close> stands for \<^verbatim>\<open>ValueError\<close>), the shortest
  round-trip \<^verbatim>\<open>repr\<close> of a float that is not a whole number below \<open>10^16\<close>, and the
  quoted \<^verbatim>\<open>repr\<close> of a string. They are left unspecified; nothing below depends on what
  they return.
\<close>

definition str_to_int :: "string \<Rightarrow> int option" where
  "str_to_int = undefined"

definition str_to_float :: "string \<Rightarrow> pyfloat option" where
  "str_to_float = undefined"

definition float_repr_general :: "real \<Rightarrow> string" where
  "float_repr_general = undefined"

definition str_repr :: "string \<Rightarrow> string" where
  "str_repr = undefined"

subsection \<open>Conversions: \<^verbatim>\<open>float(v)\<close>, \<^verbatim>\<open>int(v)\<close>\<close>

fun py_float :: "json \<Rightarrow> pyexc + pyfloat" where
  "py_float JNull = Inl TypeError"
| "py_float (JBool b) = Inr (Fin (if b then 1 else 0))"
| "py_float (JInt n) = int_to_float n"
| "py_float (JFloat f) = Inr f"
| "py_float (JStr s) = (case str_to_float s of None \<Rightarrow> Inl ValueError | Some f \<Rightarrow> Inr f)"
| "py_float (JList xs) = Inl TypeError"
| "py_float (JDict kvs) = Inl TypeError"

text \<open>\<^verbatim>\<open>int\<close> of a float truncates towards zero.\<close>

definition trunc :: "real \<Rightarrow> int" where
  "trunc r = (if 0 \<le> r then \<lfloor>r\<rfloor> else \<lceil>r\<rceil>)"

fun py_int :: "json \<Rightarrow> pyexc + int" where
  "py_int JNull = Inl TypeError"
| "py_int (JBool b) = Inr (if b then 1 else 0)"
| "py_int (JInt n) = Inr n"
| "py_int (JFloat (Fin r)) = Inr (trunc r)"
| "py_int (JFloat PInf) = Inl OverflowError"
| "py_int (JFloat NInf) = Inl OverflowError"
| "py_int (JFloat NaN) = Inl ValueError"
| "py_int (JStr s) = (case str_to_int s of None \<Rightarrow> Inl ValueError | Some n \<Rightarrow> Inr n)"
| "py_int (JList xs) = Inl TypeError"
| "py_int (JDict kvs) = Inl TypeError"

subsection \<open>Rendering: \<^verbatim>\<open>str\<close>, \<^verbatim>\<open>repr\<close> and \<^verbatim>\<open>format(x, '.3f')\<close>\<close>

definition digit :: "nat \<Rightarrow> char" where
  "digit d = ''0123456789'' ! d"

fun nat_digits :: "nat \<Rightarrow> string" where
  "nat_digits n =
     (if n < 10 then [digit n] else nat_digits (n div 10) @ [digit (n mod 10)])"

declare nat_digits.simps [simp del]

definition int_digits :: "int \<Rightarrow> string" where
  "int_digits n = (if n < 0 then ''-'' @ nat_digits (nat (- n)) else nat_digits (nat n))"

text \<open>
  \<^verbatim>\<open>str(n)\<close> on an int, also inside an f-string: CPython refuses to render an integer of
  more than 4300 decimal digits (the default of \<^verbatim>\<open>sys.set_int_max_str_digits\<close>) and raises
  \<^verbatim>\<open>ValueError\<close>.
\<close>

definition int_max_str :: int where
  "int_max_str = 10 ^ 4300"

definition int_str :: "int \<Rightarrow> pyexc + string" where
  "int_str n = (if int_max_str \<le> \<bar>n\<bar> then Inl ValueError else Inr (int_digits n))"

definition float_repr :: "pyfloat \<Rightarrow> string" where
  "float_repr f =
     (case f of
        Fin r \<Rightarrow>
          if real_of_int \<lfloor>r\<rfloor> = r \<and> \<bar>r\<bar> < 10 ^ 16 then int_digits \<lfloor>r\<rfloor> @ ''.0''
          else float_repr_general r
      | PInf \<Rightarrow> ''inf''
      | NInf \<Rightarrow> ''-inf''
      | NaN \<Rightarrow> ''nan'')"

definition round_half_even :: "real \<Rightarrow> int" where
  "round_half_even x =
     (let f = \<lfloor>x\<rfloor>; d = x - real_of_int f
      in if d < 1 / 2 then f else if 1 / 2 < d then f + 1 else if even f then f else f + 1)"

definition fixed3 :: "pyfloat \<Rightarrow> string" where
  "fixed3 f =
     (case f of
        Fin r \<Rightarrow>
          (let m = nat (round_half_even (\<bar>r\<bar> * 1000))
           in (if r < 0 then ''-'' else [])
              @ nat_digits (m div 1000) @ ''.''
              @ [digit (m div 100 mod 10), digit (m div 10 mod 10), digit (m mod 10)])
      | PInf \<Rightarrow> ''inf''
      | NInf \<Rightarrow> ''-inf''
      | NaN \<Rightarrow> ''nan'')"

fun join :: "string \<Rightarrow> string list \<Rightarrow> string" where
  "join sep [] = []"
| "join sep [x] = x"
| "join sep (x # y # ys) = x @ sep @ join sep (y # ys)"

text \<open>The results of a list of renderings, or the first exception among them.\<close>

fun collect :: "(pyexc + 'a) list \<Rightarrow> pyexc + 'a list" where
  "collect [] = Inr []"
| "collect (r # rs) = andThen r (\<lambda>x. andThen (collect rs) (\<lambda>xs. Inr (x # xs)))"

fun py_repr :: "json \<Rightarrow> pyexc + string" where
  "py_repr JNull = Inr ''None''"
| "py_repr (JBool b) = Inr (if b then ''True'' else ''False'')"
| "py_repr (JInt n) = int_str n"
| "py_repr (JFloat f) = Inr (float_repr f)"
| "py_repr (JStr s) = Inr (str_repr s)"
| "py_repr (JList xs) =
     andThen (collect (map py_repr xs)) (\<lambda>ss. Inr (''['' @ join '', '' ss @ '']''))"
| "py_repr (JDict kvs) =
     andThen
       (collect (map (\<lambda>(k, v). andThen (py_repr v) (\<lambda>s. Inr (str_repr k @ '': '' @ s))) kvs))
       (\<lambda>ss. Inr (''{'' @ join '', '' ss @ ''}''))"

text \<open>What an f-string field \<^verbatim>\<open>{v}\<close> inserts: \<^verbatim>\<open>str(v)\<close>.\<close>

fun py_str :: "json \<Rightarrow> pyexc + string" where
  "py_str (JStr s) = Inr s"
| "py_str v = py_repr v"

subsection \<open>Operators: \<^verbatim>\<open>*\<close>, \<^verbatim>\<open>+\<close>, \<^verbatim>\<open>len\<close>, subscripts\<close>

text \<open>A \<^verbatim>\<open>bool\<close> is an \<^verbatim>\<open>int\<close> in arithmetic.\<close>

fun unbool :: "json \<Rightarrow> json" where
  "unbool (JBool b) = JInt (if b then 1 else 0)"
| "unbool v = v"

fun mul_core :: "json \<Rightarrow> json \<Rightarrow> pyexc + json" where
  "mul_core (JInt a) (JInt b) = Inr (JInt (a * b))"
| "mul_core (JInt a) (JFloat g) = andThen (int_to_float a) (\<lambda>f. Inr (JFloat (fmul f g)))"
| "mul_core (JFloat f) (JInt b) = andThen (int_to_float b) (\<lambda>g. Inr (JFloat (fmul f g)))"
| "mul_core (JFloat f) (JFloat g) = Inr (JFloat (fmul f g))"
| "mul_core (JStr s) (JInt n) = Inr (JStr (concat (replicate (nat n) s)))"
| "mul_core (JInt n) (JStr s) = Inr (JStr (concat (replicate (nat n) s)))"
| "mul_core (JList xs) (JInt n) = Inr (JList (concat (replicate (nat n) xs)))"
| "mul_core (JInt n) (JList xs) = Inr (JList (concat (replicate (nat n) xs)))"
| "mul_core x y = Inl TypeError"

definition py_mul :: "json \<Rightarrow> json \<Rightarrow> pyexc + json" where
  "py_mul x y = mul_core (unbool x) (unbool y)"

fun add_core :: "json \<Rightarrow> json \<Rightarrow> pyexc + json" where
  "add_core (JInt a) (JInt b) = Inr (JInt (a + b))"
| "add_core (JInt a) (JFloat g) = andThen (int_to_float a) (\<lambda>f. Inr (JFloat (fadd f g)))"
| "add_core (JFloat f) (JInt b) = andThen (int_to_float b) (\<lambda>g. Inr (JFloat (fadd f g)))"
| "add_core (JFloat f) (JFloat g) = Inr (JFloat (fadd f g))"
| "add_core (JStr s) (JStr t) = Inr (JStr (s @ t))"
| "add_core (JList xs) (JList ys) = Inr (JList (xs @ ys))"
| "add_core x y = Inl TypeError"

definition py_add :: "json \<Rightarrow> json \<Rightarrow> pyexc + json" where
  "py_add x y = add_core (unbool x) (unbool y)"

text \<open>
  The characters of a string: each is a leading byte with the continuation bytes
  (\<open>0x80\<close> to \<open>0xBF\<close>) that follow it.
\<close>

definition is_continuation :: "char \<Rightarrow> bool" where
  "is_continuation c = (128 \<le> (of_char c :: nat) \<and> (of_char c :: nat) < 192)"

function codepoints :: "string \<Rightarrow> string list" where
  "codepoints [] = []"
| "codepoints (c # cs) =
     (c # takeWhile is_continuation cs) # codepoints (dropWhile is_continuation cs)"
  by pat_completeness auto
termination
  by (relation "measure length") (auto simp add: length_dropWhile_le less_Suc_eq_le)

fun py_len :: "json \<Rightarrow> pyexc + nat" where
  "py_len (JList xs) = Inr (length xs)"
| "py_len (JStr s) = Inr (length (codepoints s))"
| "py_len (JDict kvs) = Inr (length kvs)"
| "py_len v = Inl TypeError"

text \<open>
  \<^verbatim>\<open>v[i]\<close> with a literal index \<open>0\<close> or \<open>1\<close>. A dict decoded from JSON has string keys
  only, so an int subscript on it is a \<^verbatim>\<open>KeyError\<close>.
\<close>

fun py_getitem :: "json \<Rightarrow> nat \<Rightarrow> pyexc + json" where
  "py_getitem (JList xs) i = (if i < length xs then Inr (xs ! i) else Inl IndexError)"
| "py_getitem (JStr s) i =
     (if i < length (codepoints s) then Inr (JStr (codepoints s ! i)) else Inl IndexError)"
| "py_getitem (JDict kvs) i = Inl KeyError"
| "py_getitem v i = Inl TypeError"

text \<open>\<^verbatim>\<open>v[k]\<close> with a string key.\<close>

fun py_getkey :: "json \<Rightarrow> string \<Rightarrow> pyexc + json" where
  "py_getkey (JDict kvs) k = (case map_of kvs k of None \<Rightarrow> Inl KeyError | Some v \<Rightarrow> Inr v)"
| "py_getkey v k = Inl TypeError"

text \<open>\<^verbatim>\<open>d.get(k, default)\<close> on a dict.\<close>

definition dict_get :: "pydict \<Rightarrow> string \<Rightarrow> json \<Rightarrow> json" where
  "dict_get d k dflt = (case map_of d k of None \<Rightarrow> dflt | Some v \<Rightarrow> v)"

section \<open>The content catalog\<close>

text \<open>
  The module global \<^verbatim>\<open>TOPICS\<close>, a dict literal, in its written order. The middle dot
  of the last question is the two bytes of its UTF-8 encoding.
\<close>

definition middle_dot :: string where
  "middle_dot = [CHR 0xC2, CHR 0xB7]"

definition TOPICS :: pydict where
  "TOPICS =
    [(''probability'', JDict
       [(''description'',
           JStr ''Basics: equally likely outcomes, simple probabilities, complementary events.''),
        (''samples'', JList
           [JDict
              [(''id'', JStr ''prob-1''),
               (''question'', JStr ''A bag contains 3 red and 2 blue balls. What is P(red)?''),
               (''data'', JDict [(''red'', JInt 3), (''blue'', JInt 2)]),
               (''expected'', JStr ''3/5'')]])]),
     (''coordinate-geometry'', JDict
       [(''description'', JStr ''Distance, midpoint, gradients, equation of a line.''),
        (''samples'', JList
           [JDict
              [(''id'', JStr ''coord-1''),
               (''question'', JStr ''Find the distance between (1,2) and (4,6).''),
               (''data'', JDict
                  [(''x1'', JInt 1), (''y1'', JInt 2), (''x2'', JInt 4), (''y2'', JInt 6)]),
               (''expected'', JStr ''5'')]])]),
     (''calculus'', JDict
       [(''description'', JStr ''Derivatives and basic integrals.''),
        (''samples'', JList
           [JDict
              [(''id'', JStr ''calc-1''),
               (''question'', JStr ''Differentiate f(x) = 2x^2 + 3x + 1.''),
               (''data'', JDict [(''a'', JInt 2), (''b'', JInt 3), (''c'', JInt 1)]),
               (''expected'', JStr ''f'(x) = 4x + 3'')]])]),
     (''matrices'', JDict
       [(''description'', JStr ''2x2 addition and multiplication.''),
        (''samples'', JList
           [JDict
              [(''id'', JStr ''mat-1''),
               (''question'',
                  JStr (''Compute A'' @ middle_dot
                        @ ''B where A=[[1,2],[3,4]], B=[[2,0],[1,2]].'')),
               (''data'', JDict
                  [(''A'', JList [JList [JInt 1, JInt 2], JList [JInt 3, JInt 4]]),
                   (''B'', JList [JList [JInt 2, JInt 0], JList [JInt 1, JInt 2]])]),
               (''expected'', JStr ''[[4, 4], [10, 8]]'')]])])]"

text \<open>
  The handlers read the global and never assign to it. Each takes the catalog it reads as
  an argument, so that what a handler sees after other calls can be stated.
\<close>

definition root :: pydict where
  "root = [(''message'', JStr ''Welcome to ExamPrep API for GCSE & HKDSE (minimal demo).'')]"

definition health :: pydict where
  "health = [(''status'', JStr ''ok'')]"

definition list_topics :: "pydict \<Rightarrow> pydict" where
  "list_topics T = [(''topics'', JList (map (\<lambda>kv. JStr (fst kv)) T))]"

definition get_samples :: "pydict \<Rightarrow> string \<Rightarrow> pyexc + pydict" where
  "get_samples T topic =
     (case map_of T topic of
        None \<Rightarrow> Inl (HTTPException 404 ''Unknown topic'')
      | Some bucket \<Rightarrow>
          andThen (py_getkey bucket ''description'') (\<lambda>description.
          andThen (py_getkey bucket ''samples'') (\<lambda>samples.
          Inr [(''topic'', JStr topic), (''description'', description),
               (''samples'', samples)])))"

section \<open>The solver\<close>

record SolveRequest =
  topic :: string
  sample_id :: "string option"
  data :: "pydict option"

subsection \<open>probability\<close>

text \<open>
  The two f-strings of the steps render \<open>red\<close>, \<open>blue\<close> and \<open>total\<close>, in this order, and
  \<open>red\<close> and \<open>total\<close> once more; a rendering that has succeeded succeeds again, and the
  strings are reused here.
\<close>

definition solve_probability :: "string \<Rightarrow> pydict \<Rightarrow> pyexc + pydict" where
  "solve_probability tp d =
     andThen (py_int (dict_get d ''red'' (JInt 0))) (\<lambda>red.
     andThen (py_int (dict_get d ''blue'' (JInt 0))) (\<lambda>blue.
     let total = red + blue in
     if total = 0 then Inl (HTTPException 400 ''Total number of balls must be > 0'')
     else
       andThen (int_truediv red total) (\<lambda>prob_red.
       andThen (int_str red) (\<lambda>red_str.
       andThen (int_str blue) (\<lambda>blue_str.
       andThen (int_str total) (\<lambda>total_str.
       Inr [(''topic'', JStr tp),
            (''result'', JFloat prob_red),
            (''steps'', JList
               [JStr ''Identify total outcomes: total = red + blue'',
                JStr (''Compute total = '' @ red_str @ '' + '' @ blue_str
                      @ '' = '' @ total_str),
                JStr ''Probability of red = red / total'',
                JStr (''P(red) = '' @ red_str @ ''/'' @ total_str
                      @ '' = '' @ fixed3 prob_red)])]))))))"

subsection \<open>coordinate-geometry\<close>

text \<open>
  The f-string of the last step evaluates \<^verbatim>\<open>dx**2\<close> and \<^verbatim>\<open>dy**2\<close> a second time; they
  have been evaluated without an exception by then, and the values are reused here.
\<close>

definition solve_coordinate_geometry :: "string \<Rightarrow> pydict \<Rightarrow> pyexc + pydict" where
  "solve_coordinate_geometry tp d =
     andThen (py_float (dict_get d ''x1'' (JInt 0))) (\<lambda>x1.
     andThen (py_float (dict_get d ''y1'' (JInt 0))) (\<lambda>y1.
     andThen (py_float (dict_get d ''x2'' (JInt 0))) (\<lambda>x2.
     andThen (py_float (dict_get d ''y2'' (JInt 0))) (\<lambda>y2.
     let dx = fsub x2 x1; dy = fsub y2 y1 in
     andThen (float_sq dx) (\<lambda>dx2.
     andThen (float_sq dy) (\<lambda>dy2.
     andThen (float_root (fadd dx2 dy2)) (\<lambda>distance.
     Inr [(''topic'', JStr tp),
          (''result'', JFloat distance),
          (''steps'', JList
             [JStr ''Use distance formula: d = sqrt((x2-x1)^2 + (y2-y1)^2)'',
              JStr (''dx = '' @ float_repr x2 @ '' - '' @ float_repr x1
                    @ '' = '' @ float_repr dx),
              JStr (''dy = '' @ float_repr y2 @ '' - '' @ float_repr y1
                    @ '' = '' @ float_repr dy),
              JStr (''d = sqrt('' @ fixed3 dx2 @ '' + '' @ fixed3 dy2
                    @ '') = '' @ fixed3 distance)])])))))))"

subsection \<open>calculus\<close>

text \<open>\<^verbatim>\<open>2*a\<close> converts the int \<open>2\<close> to the float \<open>2.0\<close> and multiplies floats.\<close>

definition solve_calculus :: "string \<Rightarrow> pydict \<Rightarrow> pyexc + pydict" where
  "solve_calculus tp d =
     andThen (py_float (dict_get d ''a'' (JInt 0))) (\<lambda>a.
     andThen (py_float (dict_get d ''b'' (JInt 0))) (\<lambda>b.
     let derivative =
           ''f'(x) = '' @ float_repr (fmul (Fin 2) a) @ ''x + '' @ float_repr b in
     Inr [(''topic'', JStr tp),
          (''result'', JStr derivative),
          (''steps'', JList
             [JStr ''Differentiate ax^2 -> 2ax'',
              JStr ''Differentiate bx -> b'',
              JStr ''Sum results'',
              JStr derivative])]))"

subsection \<open>matrices\<close>

text \<open>\<^verbatim>\<open>all(len(row) == 2 for row in M)\<close>: stops at the first row that fails.\<close>

fun all_rows_len2 :: "json list \<Rightarrow> pyexc + bool" where
  "all_rows_len2 [] = Inr True"
| "all_rows_len2 (row # rows) =
     andThen (py_len row) (\<lambda>n. if n = 2 then all_rows_len2 rows else Inr False)"

text \<open>
  \<^verbatim>\<open>len(A) == len(B) == 2 and all(...A...) and all(...B...)\<close>, with the short circuit
  of \<^verbatim>\<open>and\<close>.
\<close>

definition is_2x2_pair :: "json list \<Rightarrow> json list \<Rightarrow> pyexc + bool" where
  "is_2x2_pair A B =
     (if length A = length B \<and> length B = 2 then
        andThen (all_rows_len2 A) (\<lambda>okA. if okA then all_rows_len2 B else Inr False)
      else Inr False)"

definition item :: "json \<Rightarrow> nat \<Rightarrow> nat \<Rightarrow> pyexc + json" where
  "item M i j = andThen (py_getitem M i) (\<lambda>row. py_getitem row j)"

text \<open>\<^verbatim>\<open>A[i][0]*B[0][j] + A[i][1]*B[1][j]\<close>, evaluated left to right.\<close>

definition dot :: "json \<Rightarrow> json \<Rightarrow> nat \<Rightarrow> nat \<Rightarrow> pyexc + json" where
  "dot A B i j =
     andThen (item A i 0) (\<lambda>a0.
     andThen (item B 0 j) (\<lambda>b0.
     andThen (py_mul a0 b0) (\<lambda>p.
     andThen (item A i 1) (\<lambda>a1.
     andThen (item B 1 j) (\<lambda>b1.
     andThen (py_mul a1 b1) (\<lambda>q.
     py_add p q))))))"

text \<open>
  The f-string \<^verbatim>\<open>"cIJ = {A[i][0]}*{B[0][j]} + {A[i][1]}*{B[1][j]} = {cIJ}"\<close>: each field is
  evaluated and rendered before the next one.
\<close>

definition dot_step :: "string \<Rightarrow> json \<Rightarrow> json \<Rightarrow> nat \<Rightarrow> nat \<Rightarrow> json \<Rightarrow> pyexc + json" where
  "dot_step name A B i j c =
     andThen (item A i 0) (\<lambda>a0. andThen (py_str a0) (\<lambda>sa0.
     andThen (item B 0 j) (\<lambda>b0. andThen (py_str b0) (\<lambda>sb0.
     andThen (item A i 1) (\<lambda>a1. andThen (py_str a1) (\<lambda>sa1.
     andThen (item B 1 j) (\<lambda>b1. andThen (py_str b1) (\<lambda>sb1.
     andThen (py_str c) (\<lambda>sc.
     Inr (JStr (name @ '' = '' @ sa0 @ ''*'' @ sb0 @ '' + ''
                @ sa1 @ ''*'' @ sb1 @ '' = '' @ sc)))))))))))"

definition solve_matrices :: "string \<Rightarrow> pydict \<Rightarrow> pyexc + pydict" where
  "solve_matrices tp d =
     (let A = dict_get d ''A'' JNull; B = dict_get d ''B'' JNull in
      case (A, B) of
        (JList rowsA, JList rowsB) \<Rightarrow>
          andThen (is_2x2_pair rowsA rowsB) (\<lambda>ok.
          if \<not> ok then
            Inl (HTTPException 400 ''Only 2x2 matrices are supported in this demo'')
          else
            andThen (dot A B 0 0) (\<lambda>c11.
            andThen (dot A B 0 1) (\<lambda>c12.
            andThen (dot A B 1 0) (\<lambda>c21.
            andThen (dot A B 1 1) (\<lambda>c22.
            andThen (dot_step ''c11'' A B 0 0 c11) (\<lambda>s11.
            andThen (dot_step ''c12'' A B 0 1 c12) (\<lambda>s12.
            andThen (dot_step ''c21'' A B 1 0 c21) (\<lambda>s21.
            andThen (dot_step ''c22'' A B 1 1 c22) (\<lambda>s22.
            Inr [(''topic'', JStr tp),
                 (''result'', JList [JList [c11, c12], JList [c21, c22]]),
                 (''steps'', JList
                    [JStr (''Compute C = A'' @ middle_dot @ ''B for 2x2 matrices''),
                     s11, s12, s21, s22])])))))))))
      | _ \<Rightarrow> Inl (HTTPException 400 ''A and B must be 2x2 lists''))"

subsection \<open>Dispatch\<close>

text \<open>\<^verbatim>\<open>req.data or {}\<close>: an absent or empty payload is the empty dict.\<close>

definition payload :: "SolveRequest \<Rightarrow> pydict" where
  "payload req = (case data req of None \<Rightarrow> [] | Some d \<Rightarrow> if d = [] then [] else d)"

text \<open>
  The field \<open>topic\<close> is declared as one of four literals, which the framework checks
  before the handler runs; the body compares strings and ends in a branch for any other
  value, and so does this function. The four branches are written inline in the source.
\<close>

definition solve :: "SolveRequest \<Rightarrow> pyexc + pydict" where
  "solve req =
     (let tp = topic req; d = payload req
      in if tp = ''probability'' then solve_probability tp d
         else if tp = ''coordinate-geometry'' then solve_coordinate_geometry tp d
         else if tp = ''calculus'' then solve_calculus tp d
         else if tp = ''matrices'' then solve_matrices tp d
         else Inl (HTTPException 400 ''Unsupported topic''))"

text \<open>The \<^verbatim>\<open>"result"\<close> entry of a response, when there is a response.\<close>

definition result_of :: "pyexc + pydict \<Rightarrow> pyexc + json" where
  "result_of r = andThen r (\<lambda>body. py_getkey (JDict body) ''result'')"

text \<open>The number a JSON number stands for: an int, or a finite float.\<close>

fun num_val :: "json \<Rightarrow> real option" where
  "num_val (JInt n) = Some (real_of_int n)"
| "num_val (JFloat (Fin r)) = Some r"
| "num_val v = None"

text \<open>An int or a float (of any kind): what \<^verbatim>\<open>float\<close> accepts without parsing.\<close>

fun is_number :: "json \<Rightarrow> bool" where
  "is_number (JInt n) = True"
| "is_number (JFloat f) = True"
| "is_number v = False"

fun is_list :: "json \<Rightarrow> bool" where
  "is_list (JList xs) = True"
| "is_list v = False"

text \<open>
  A number that \<^verbatim>\<open>float\<close> converts without rounding and well inside the range of a
  float: an int of magnitude at most \<open>2^53\<close>, or a finite float of magnitude at most
  \<open>2^510\<close>.
\<close>

fun in_range :: "json \<Rightarrow> bool" where
  "in_range (JInt n) = (\<bar>n\<bar> \<le> 2 ^ 53)"
| "in_range (JFloat (Fin r)) = (\<bar>r\<bar> \<le> 2 ^ 510)"
| "in_range v = False"



section \<open>The application as a sequence of calls\<close>

datatype call =
    Root
  | Health
  | ListTopics
  | GetSamples string
  | Solve SolveRequest

text \<open>A call answers from the catalog and leaves it as it found it.\<close>

fun serve :: "pydict \<Rightarrow> call \<Rightarrow> (pyexc + pydict) \<times> pydict" where
  "serve T Root = (Inr root, T)"
| "serve T Health = (Inr health, T)"
| "serve T ListTopics = (Inr (list_topics T), T)"
| "serve T (GetSamples tp) = (get_samples T tp, T)"
| "serve T (Solve req) = (solve req, T)"

fun serve_all :: "pydict \<Rightarrow> call list \<Rightarrow> pydict" where
  "serve_all T [] = T"
| "serve_all T (c # cs) = serve_all (snd (serve T c)) cs"

section \<open>Properties of the catalog\<close>

lemma serve_keeps_catalog: "snd (serve T c) = T"
  by (cases c) simp_all

lemma serve_all_keeps_catalog: "serve_all T cs = T"
  by (induction cs arbitrary: T) (simp_all add: serve_keeps_catalog)

text \<open>
  C7. Listing the topics answers with exactly the four identifiers \<open>probability\<close>,
  \<open>coordinate-geometry\<close>, \<open>calculus\<close>, \<open>matrices\<close>, in this order, whatever calls
  \<open>cs\<close> were served before.
\<close>

theorem list_topics_fixed:
  "fst (serve (serve_all TOPICS cs) ListTopics) =
     Inr [(''topics'', JList [JStr ''probability'', JStr ''coordinate-geometry'',
                              JStr ''calculus'', JStr ''matrices''])]"
  by (simp add: serve_all_keeps_catalog list_topics_def TOPICS_def)

theorem list_topics_fixed_witness:
  "fst (serve (serve_all TOPICS [GetSamples ''nope'', ListTopics, Health]) ListTopics) =
     Inr [(''topics'', JList [JStr ''probability'', JStr ''coordinate-geometry'',
                              JStr ''calculus'', JStr ''matrices''])]"
  using list_topics_fixed [of "[GetSamples ''nope'', ListTopics, Health]"] by simp

lemma get_samples_unknown:
  "tp \<notin> set [''probability'', ''coordinate-geometry'', ''calculus'', ''matrices'']
   \<Longrightarrow> get_samples TOPICS tp = Inl (HTTPException 404 ''Unknown topic'')"
  by (simp add: get_samples_def TOPICS_def)

lemma get_samples_known:
  "tp \<in> set [''probability'', ''coordinate-geometry'', ''calculus'', ''matrices'']
   \<Longrightarrow> \<exists>desc s ss. get_samples TOPICS tp =
         Inr [(''topic'', JStr tp), (''description'', JStr desc), (''samples'', JList (s # ss))]"
  by (auto simp add: get_samples_def TOPICS_def)

text \<open>
  C8. After any calls \<open>cs\<close>, asking for the samples of an identifier outside the four
  known ones raises the 404 \<open>Unknown topic\<close>; asking for one of the four answers with a
  description and a list of samples that is not empty. These are the only two outcomes,
  and the catalog is left as it was.
\<close>

theorem get_samples_cases:
  "(tp \<notin> set [''probability'', ''coordinate-geometry'', ''calculus'', ''matrices''] \<longrightarrow>
      serve (serve_all TOPICS cs) (GetSamples tp)
        = (Inl (HTTPException 404 ''Unknown topic''), TOPICS))
   \<and> (tp \<in> set [''probability'', ''coordinate-geometry'', ''calculus'', ''matrices''] \<longrightarrow>
      (\<exists>desc s ss. serve (serve_all TOPICS cs) (GetSamples tp)
        = (Inr [(''topic'', JStr tp), (''description'', JStr desc),
                (''samples'', JList (s # ss))], TOPICS)))"
  using get_samples_unknown [of tp] get_samples_known [of tp]
  by (simp add: serve_all_keeps_catalog)

theorem get_samples_cases_witness:
  "''unknown'' \<notin> set [''probability'', ''coordinate-geometry'', ''calculus'', ''matrices'']
   \<and> serve (serve_all TOPICS [ListTopics]) (GetSamples ''unknown'')
        = (Inl (HTTPException 404 ''Unknown topic''), TOPICS)
   \<and> ''calculus'' \<in> set [''probability'', ''coordinate-geometry'', ''calculus'', ''matrices'']
   \<and> (\<exists>desc s ss. serve (serve_all TOPICS [ListTopics]) (GetSamples ''calculus'')
        = (Inr [(''topic'', JStr ''calculus''), (''description'', JStr desc),
                (''samples'', JList (s # ss))], TOPICS))"
  using get_samples_cases [of "''unknown''" "[ListTopics]"]
        get_samples_cases [of "''calculus''" "[ListTopics]"]
  by simp

section \<open>Properties of the solver\<close>

lemma andThen_assoc: "andThen (andThen m f) g = andThen m (\<lambda>x. andThen (f x) g)"
  by (cases m) simp_all

lemma andThen_if:
  "andThen (if c then m else n) f = (if c then andThen m f else andThen n f)"
  by simp

lemma andThen_Inl_iff:
  "andThen m f = Inl e \<longleftrightarrow> m = Inl e \<or> (\<exists>x. m = Inr x \<and> f x = Inl e)"
  by (cases m) simp_all

lemma int_str_in_limit: "\<bar>n\<bar> < int_max_str \<Longrightarrow> int_str n = Inr (int_digits n)"
  by (simp add: int_str_def)

lemma int_str_over_limit: "int_max_str \<le> \<bar>n\<bar> \<Longrightarrow> int_str n = Inl ValueError"
  by (simp add: int_str_def)

lemma int_str_no_http: "int_str n \<noteq> Inl (HTTPException c m)"
  by (simp add: int_str_def)

lemma int_max_str_large: "2 ^ 64 < int_max_str"
proof -
  have "(2::int) ^ 64 < 10 ^ 64"
    by (rule power_strict_mono) simp_all
  also have "(10::int) ^ 64 \<le> 10 ^ 4300"
    by (rule power_increasing) simp_all
  finally show ?thesis
    unfolding int_max_str_def .
qed

lemma int_str_small: "\<bar>n\<bar> \<le> 2 ^ 64 \<Longrightarrow> int_str n = Inr (int_digits n)"
  using int_max_str_large by (intro int_str_in_limit) linarith

text \<open>
  C9. The answer of \<open>solve\<close>, response or exception, does not depend on the field
  \<open>sample_id\<close>: two requests that differ in it only are answered alike.
\<close>

theorem solve_ignores_sample_id:
  "solve (req\<lparr>sample_id := sa\<rparr>) = solve (req\<lparr>sample_id := sb\<rparr>)"
  by (simp add: solve_def payload_def)

theorem solve_ignores_sample_id_witness:
  "solve \<lparr>topic = ''probability'', sample_id = Some ''prob-1'',
          data = Some [(''red'', JInt 3), (''blue'', JInt 2)]\<rparr>
   = solve \<lparr>topic = ''probability'', sample_id = None,
            data = Some [(''red'', JInt 3), (''blue'', JInt 2)]\<rparr>"
  using solve_ignores_sample_id
    [where req = "\<lparr>topic = ''probability'', sample_id = None,
           data = Some [(''red'', JInt 3), (''blue'', JInt 2)]\<rparr>"
       and sa = "Some ''prob-1''" and sb = None]
  by simp


subsection \<open>probability\<close>

lemma float_ovf_large: "2 ^ 1023 < float_ovf"
  by (simp add: float_ovf_def)

lemma int_truediv_fraction:
  assumes "0 \<le> a" and "a \<le> t" and "0 < t"
  shows "int_truediv a t = Inr (Fin (real_of_int a / real_of_int t))"
proof -
  have "\<bar>real_of_int a / real_of_int t\<bar> \<le> 1"
    using assms by simp
  moreover have "(1::real) < float_ovf"
    using float_ovf_large by (simp add: order_less_trans [of 1 "2 ^ 1023"])
  ultimately have "\<not> float_ovf \<le> \<bar>real_of_int a / real_of_int t\<bar>"
    by linarith
  then show ?thesis
    using assms by (simp add: int_truediv_def)
qed

lemma int_truediv_no_http: "int_truediv a t \<noteq> Inl (HTTPException c m)"
  by (simp add: int_truediv_def)

lemma probability_result:
  "result_of (solve_probability tp d) =
     andThen (py_int (dict_get d ''red'' (JInt 0))) (\<lambda>red.
     andThen (py_int (dict_get d ''blue'' (JInt 0))) (\<lambda>blue.
     if red + blue = 0 then Inl (HTTPException 400 ''Total number of balls must be > 0'')
     else
       andThen (int_truediv red (red + blue)) (\<lambda>prob_red.
       andThen (int_str red) (\<lambda>red_str.
       andThen (int_str blue) (\<lambda>blue_str.
       andThen (int_str (red + blue)) (\<lambda>total_str.
       Inr (JFloat prob_red)))))))"
  by (simp add: result_of_def solve_probability_def andThen_assoc andThen_if Let_def
      cong: if_cong)

text \<open>
  C2, as the code has it. Let \<open>red\<close> and \<open>blue\<close> be the non-negative integers that the
  payload gives, or \<open>0\<close> where the field or the whole payload is absent. When
  \<open>red + blue > 0\<close> and \<open>red + blue\<close> has at most 4300 decimal digits, \<open>solve\<close> succeeds
  and its result is \<open>red / (red + blue)\<close>, which the code rounds to a float. When both are
  \<open>0\<close>, it raises the HTTP 400 exception whose detail is
  \<open>Total number of balls must be > 0\<close>.
\<close>

theorem probability_quotient:
  assumes "topic req = ''probability''"
    and "dict_get (payload req) ''red'' (JInt 0) = JInt red"
    and "dict_get (payload req) ''blue'' (JInt 0) = JInt blue"
    and "0 \<le> red" and "0 \<le> blue"
  shows "(0 < red + blue \<and> red + blue < int_max_str \<longrightarrow>
           result_of (solve req)
             = Inr (JFloat (Fin (real_of_int red / real_of_int (red + blue)))))
       \<and> (red + blue = 0 \<longrightarrow>
           solve req = Inl (HTTPException 400 ''Total number of balls must be > 0''))"
proof (intro conjI impI)
  assume h: "0 < red + blue \<and> red + blue < int_max_str"
  have quot: "int_truediv red (red + blue)
          = Inr (Fin (real_of_int red / real_of_int (red + blue)))"
    using assms(4,5) h by (intro int_truediv_fraction) simp_all
  have r: "int_str red = Inr (int_digits red)"
    using assms(4,5) h by (intro int_str_in_limit) simp
  have b: "int_str blue = Inr (int_digits blue)"
    using assms(4,5) h by (intro int_str_in_limit) simp
  have t: "int_str (red + blue) = Inr (int_digits (red + blue))"
    using assms(4,5) h by (intro int_str_in_limit) simp
  have "result_of (solve req) = result_of (solve_probability (topic req) (payload req))"
    using assms(1) by (simp add: solve_def)
  also have "\<dots> = Inr (JFloat (Fin (real_of_int red / real_of_int (red + blue))))"
    using h by (simp add: probability_result assms(2,3) quot r b t)
  finally show "result_of (solve req)
      = Inr (JFloat (Fin (real_of_int red / real_of_int (red + blue))))" .
next
  assume "red + blue = 0"
  then show "solve req = Inl (HTTPException 400 ''Total number of balls must be > 0'')"
    using assms(1,2,3) by (simp add: solve_def solve_probability_def Let_def)
qed

theorem probability_quotient_witness:
  "result_of (solve \<lparr>topic = ''probability'', sample_id = None,
       data = Some [(''red'', JInt 3), (''blue'', JInt 2)]\<rparr>) = Inr (JFloat (Fin (3 / 5)))
   \<and> solve \<lparr>topic = ''probability'', sample_id = None, data = None\<rparr>
       = Inl (HTTPException 400 ''Total number of balls must be > 0'')
   \<and> solve \<lparr>topic = ''probability'', sample_id = None, data = Some [(''blue'', JInt 0)]\<rparr>
       = Inl (HTTPException 400 ''Total number of balls must be > 0'')"
  using probability_quotient
      [where req = "\<lparr>topic = ''probability'', sample_id = None,
                      data = Some [(''red'', JInt 3), (''blue'', JInt 2)]\<rparr>"
         and red = 3 and blue = 2]
    probability_quotient
      [where req = "\<lparr>topic = ''probability'', sample_id = None, data = None\<rparr>"
         and red = 0 and blue = 0]
    probability_quotient
      [where req = "\<lparr>topic = ''probability'', sample_id = None,
                      data = Some [(''blue'', JInt 0)]\<rparr>"
         and red = 0 and blue = 0]
  using int_max_str_large
  by (simp add: payload_def dict_get_def)

lemma probability_render_fails:
  assumes "0 \<le> r" and "0 \<le> b" and "int_max_str \<le> r + b"
  shows "solve \<lparr>topic = ''probability'', sample_id = sid,
                data = Some [(''red'', JInt r), (''blue'', JInt b)]\<rparr> = Inl ValueError"
proof -
  have pos: "0 < int_max_str"
    using int_max_str_large by simp
  have quot: "int_truediv r (r + b) = Inr (Fin (real_of_int r / real_of_int (r + b)))"
    using assms pos by (intro int_truediv_fraction) simp_all
  have t: "int_str (r + b) = Inl ValueError"
    using assms by (intro int_str_over_limit) simp
  have "int_str r = Inl ValueError \<or> int_str r = Inr (int_digits r)"
    by (simp add: int_str_def)
  moreover have "int_str b = Inl ValueError \<or> int_str b = Inr (int_digits b)"
    by (simp add: int_str_def)
  ultimately show ?thesis
    using assms pos
    by (auto simp add: solve_def payload_def solve_probability_def dict_get_def quot t)
qed

text \<open>
  The detail of that exception is not the string \<open>total must be > 0\<close>. And a sum of more
  than 4300 digits is not rendered: with \<open>red = blue = 9 * 10^4299\<close> the f-string of the
  second step raises \<^verbatim>\<open>ValueError\<close>.
\<close>

theorem probability_reason_counterexample:
  "solve \<lparr>topic = ''probability'', sample_id = None,
          data = Some [(''red'', JInt 0), (''blue'', JInt 0)]\<rparr>
     = Inl (HTTPException 400 ''Total number of balls must be > 0'')
   \<and> solve \<lparr>topic = ''probability'', sample_id = None,
            data = Some [(''red'', JInt 0), (''blue'', JInt 0)]\<rparr>
     \<noteq> Inl (HTTPException 400 ''total must be > 0'')
   \<and> solve \<lparr>topic = ''probability'', sample_id = None,
            data = Some [(''red'', JInt (9 * 10 ^ 4299)), (''blue'', JInt (9 * 10 ^ 4299))]\<rparr>
     = Inl ValueError"
proof (intro conjI)
  have nonneg: "0 \<le> (9::int) * 10 ^ m" for m :: nat
    by simp
  have over: "(10::int) ^ Suc m \<le> 9 * 10 ^ m + 9 * 10 ^ m" for m :: nat
    by simp
  have "int_max_str = 10 ^ Suc 4299"
    unfolding int_max_str_def by (rule arg_cong [where f = "\<lambda>n. 10 ^ n"]) simp
  then have limit: "int_max_str \<le> 9 * 10 ^ 4299 + 9 * 10 ^ 4299"
    using over [of 4299] by (rule ssubst)
  show "solve \<lparr>topic = ''probability'', sample_id = None,
            data = Some [(''red'', JInt (9 * 10 ^ 4299)), (''blue'', JInt (9 * 10 ^ 4299))]\<rparr>
     = Inl ValueError"
    by (rule probability_render_fails [OF nonneg nonneg limit])
  show "solve \<lparr>topic = ''probability'', sample_id = None,
          data = Some [(''red'', JInt 0), (''blue'', JInt 0)]\<rparr>
     = Inl (HTTPException 400 ''Total number of balls must be > 0'')"
    by (simp add: solve_def payload_def solve_probability_def dict_get_def)
  show "solve \<lparr>topic = ''probability'', sample_id = None,
            data = Some [(''red'', JInt 0), (''blue'', JInt 0)]\<rparr>
     \<noteq> Inl (HTTPException 400 ''total must be > 0'')"
    by (simp add: solve_def payload_def solve_probability_def dict_get_def)
qed

text \<open>
  C10. The probability branch does not check the sign of its inputs. With \<open>red = -1\<close>
  and \<open>blue = 3\<close> it succeeds and the result is \<open>-0.5\<close>, outside \<open>[0, 1]\<close>. A float input
  is truncated to an integer before anything else. Of all integer inputs, the branch
  rejects with an HTTP exception exactly those whose sum is \<open>0\<close>.
\<close>

theorem probability_no_sign_check:
  "result_of (solve \<lparr>topic = ''probability'', sample_id = sid,
       data = Some [(''red'', JInt (- 1)), (''blue'', JInt 3)]\<rparr>)
     = Inr (JFloat (Fin (- 1 / 2)))
   \<and> (- 1 / 2 :: real) \<notin> {0..1}
   \<and> solve \<lparr>topic = ''probability'', sample_id = sid,
         data = Some [(''red'', JFloat (Fin x)), (''blue'', JFloat (Fin y))]\<rparr>
     = solve \<lparr>topic = ''probability'', sample_id = sid,
         data = Some [(''red'', JInt (trunc x)), (''blue'', JInt (trunc y))]\<rparr>
   \<and> ((\<exists>c m. solve \<lparr>topic = ''probability'', sample_id = sid,
                 data = Some [(''red'', JInt r), (''blue'', JInt b)]\<rparr>
               = Inl (HTTPException c m))
        = (r + b = 0))"
proof (intro conjI)
  show "result_of (solve \<lparr>topic = ''probability'', sample_id = sid,
       data = Some [(''red'', JInt (- 1)), (''blue'', JInt 3)]\<rparr>)
     = Inr (JFloat (Fin (- 1 / 2)))"
    by (simp add: solve_def payload_def probability_result dict_get_def
        int_truediv_def float_ovf_def int_str_small)
  show "(- 1 / 2 :: real) \<notin> {0..1}"
    by simp
  show "solve \<lparr>topic = ''probability'', sample_id = sid,
         data = Some [(''red'', JFloat (Fin x)), (''blue'', JFloat (Fin y))]\<rparr>
     = solve \<lparr>topic = ''probability'', sample_id = sid,
         data = Some [(''red'', JInt (trunc x)), (''blue'', JInt (trunc y))]\<rparr>"
    by (simp add: solve_def payload_def solve_probability_def dict_get_def)
  show "(\<exists>c m. solve \<lparr>topic = ''probability'', sample_id = sid,
                 data = Some [(''red'', JInt r), (''blue'', JInt b)]\<rparr>
               = Inl (HTTPException c m))
        = (r + b = 0)"
  proof (cases "r + b = 0")
    case True
    then show ?thesis
      by (simp add: solve_def payload_def solve_probability_def dict_get_def)
  next
    case False
    have "solve \<lparr>topic = ''probability'', sample_id = sid,
                 data = Some [(''red'', JInt r), (''blue'', JInt b)]\<rparr> \<noteq> Inl (HTTPException c m)"
      for c m
      using False int_truediv_no_http [of r "r + b" c m]
        int_str_no_http [of r c m] int_str_no_http [of b c m] int_str_no_http [of "r + b" c m]
      by (simp add: solve_def payload_def solve_probability_def dict_get_def Let_def
          andThen_Inl_iff)
    then show ?thesis using False by simp
  qed
qed

theorem probability_no_sign_check_witness:
  "solve \<lparr>topic = ''probability'', sample_id = None,
         data = Some [(''red'', JFloat (Fin (27 / 10))), (''blue'', JFloat (Fin (- 17 / 10)))]\<rparr>
     = solve \<lparr>topic = ''probability'', sample_id = None,
         data = Some [(''red'', JInt 2), (''blue'', JInt (- 1))]\<rparr>
   \<and> (\<exists>c m. solve \<lparr>topic = ''probability'', sample_id = None,
                 data = Some [(''red'', JInt 4), (''blue'', JInt (- 4))]\<rparr>
               = Inl (HTTPException c m))"
  using probability_no_sign_check [where x = "27 / 10" and y = "- 17 / 10" and r = 4 and b = "- 4"
      and sid = None]
  by (simp add: trunc_def)

subsection \<open>coordinate-geometry\<close>

lemma float_ovf_pos: "1 < float_ovf"
  using float_ovf_large by (simp add: order_less_trans [of 1 "2 ^ 1023"])

lemma fl_in_range: "\<bar>r\<bar> < float_ovf \<Longrightarrow> fl r = Fin r"
  by (auto simp add: fl_def)

lemma fl_nonneg: "0 \<le> r \<Longrightarrow> fl r = PInf \<or> fl r = Fin r"
  using float_ovf_pos by (auto simp add: fl_def)

lemma fl_neg: "fl (- r) = fneg (fl r)"
  using float_ovf_pos by (auto simp add: fl_def)

lemma fneg_fneg: "fneg (fneg x) = x"
  by (cases x) simp_all

lemma fadd_commute: "fadd x y = fadd y x"
  by (cases x; cases y) (simp_all add: add.commute)

lemma fadd_fneg: "fadd (fneg x) (fneg y) = fneg (fadd x y)"
proof (cases x; cases y)
  fix a b assume "x = Fin a" "y = Fin b"
  then show ?thesis using fl_neg [of "a + b"] by simp
qed simp_all

lemma fsub_swap: "fsub x y = fneg (fsub y x)"
  by (simp add: fsub_def fadd_fneg [symmetric] fneg_fneg fadd_commute)

lemma float_sq_fneg: "float_sq (fneg x) = float_sq x"
  by (cases x) simp_all

lemma py_float_number:
  "is_number v \<Longrightarrow> py_float v = Inl OverflowError \<or> (\<exists>f. py_float v = Inr f)"
  by (cases v) (simp_all add: int_to_float_def)

lemma py_float_num_val:
  "num_val v = Some r \<Longrightarrow> \<bar>r\<bar> < float_ovf \<Longrightarrow> py_float v = Inr (Fin r)"
proof (cases v)
  case (JFloat f)
  assume "num_val v = Some r"
  with JFloat show ?thesis by (cases f) simp_all
qed (auto simp add: int_to_float_def)

lemma sq_below_ovf:
  fixes r :: real
  assumes "r ^ 2 < float_ovf"
  shows "\<bar>r\<bar> < float_ovf"
proof (rule ccontr)
  assume "\<not> \<bar>r\<bar> < float_ovf"
  then have big: "float_ovf \<le> \<bar>r\<bar>" by simp
  with float_ovf_pos have "1 \<le> \<bar>r\<bar>" by linarith
  then have "\<bar>r\<bar> * 1 \<le> \<bar>r\<bar> * \<bar>r\<bar>"
    by (intro mult_left_mono) simp_all
  then have "\<bar>r\<bar> \<le> r ^ 2"
    by (simp add: power2_eq_square)
  with big assms show False by linarith
qed

text \<open>The base of the square root is never negative.\<close>

lemma sum_sq_cases:
  assumes "float_sq dx = Inr a" and "float_sq dy = Inr b"
  shows "(\<exists>r. fadd a b = Fin r \<and> 0 \<le> r) \<or> fadd a b = PInf \<or> fadd a b = NaN"
proof -
  have a: "(\<exists>r. a = Fin r \<and> 0 \<le> r) \<or> a = PInf \<or> a = NaN"
    using assms(1) by (cases dx) (auto split: if_splits)
  have b: "(\<exists>r. b = Fin r \<and> 0 \<le> r) \<or> b = PInf \<or> b = NaN"
    using assms(2) by (cases dy) (auto split: if_splits)
  from a b show ?thesis
  proof (elim disjE exE conjE)
    fix r s assume "a = Fin r" "0 \<le> r" "b = Fin s" "0 \<le> s"
    then show ?thesis using fl_nonneg [of "r + s"] by auto
  qed auto
qed

lemma coordinate_result:
  "result_of (solve_coordinate_geometry tp d) =
     andThen (py_float (dict_get d ''x1'' (JInt 0))) (\<lambda>x1.
     andThen (py_float (dict_get d ''y1'' (JInt 0))) (\<lambda>y1.
     andThen (py_float (dict_get d ''x2'' (JInt 0))) (\<lambda>x2.
     andThen (py_float (dict_get d ''y2'' (JInt 0))) (\<lambda>y2.
     andThen (float_sq (fsub x2 x1)) (\<lambda>dx2.
     andThen (float_sq (fsub y2 y1)) (\<lambda>dy2.
     andThen (float_root (fadd dx2 dy2)) (\<lambda>distance.
     Inr (JFloat distance))))))))"
  by (simp add: result_of_def solve_coordinate_geometry_def andThen_assoc Let_def)

lemma in_range_bound:
  assumes "in_range v" and "num_val v = Some x"
  shows "\<bar>x\<bar> \<le> 2 ^ 510"
proof (cases v)
  case (JInt n)
  with assms have "\<bar>n\<bar> \<le> 2 ^ 53" and x: "x = real_of_int n"
    by simp_all
  then have "real_of_int \<bar>n\<bar> \<le> real_of_int (2 ^ 53)"
    by (simp only: of_int_le_iff)
  with x show ?thesis by simp
next
  case (JFloat f)
  with assms show ?thesis by (cases f) simp_all
qed (use assms in simp_all)

text \<open>
  C5, as the code has it. Let \<open>x1\<close>, \<open>y1\<close>, \<open>x2\<close>, \<open>y2\<close> be the numbers that the payload
  gives, or \<open>0\<close> where a field or the whole payload is absent, each an int of magnitude
  at most \<open>2^53\<close> or a finite float of magnitude at most \<open>2^510\<close>. When the two points
  coincide or are at least \<open>2^-500\<close> apart, \<open>solve\<close> succeeds and its result is the square
  root of \<open>(x2 - x1)^2 + (y2 - y1)^2\<close>, which the code computes in floats, rounding each
  operation.
\<close>

theorem coordinate_distance:
  assumes "topic req = ''coordinate-geometry''"
    and "num_val (dict_get (payload req) ''x1'' (JInt 0)) = Some x1"
    and "num_val (dict_get (payload req) ''y1'' (JInt 0)) = Some y1"
    and "num_val (dict_get (payload req) ''x2'' (JInt 0)) = Some x2"
    and "num_val (dict_get (payload req) ''y2'' (JInt 0)) = Some y2"
    and "in_range (dict_get (payload req) ''x1'' (JInt 0))"
    and "in_range (dict_get (payload req) ''y1'' (JInt 0))"
    and "in_range (dict_get (payload req) ''x2'' (JInt 0))"
    and "in_range (dict_get (payload req) ''y2'' (JInt 0))"
    and "(x2 - x1) ^ 2 + (y2 - y1) ^ 2 = 0 \<or> 1 / 2 ^ 1000 \<le> (x2 - x1) ^ 2 + (y2 - y1) ^ 2"
  shows "result_of (solve req) = Inr (JFloat (Fin (sqrt ((x2 - x1) ^ 2 + (y2 - y1) ^ 2))))"
proof -
  have b: "\<bar>x1\<bar> \<le> 2 ^ 510" "\<bar>y1\<bar> \<le> 2 ^ 510" "\<bar>x2\<bar> \<le> 2 ^ 510" "\<bar>y2\<bar> \<le> 2 ^ 510"
    by (rule in_range_bound [OF assms(6) assms(2)], rule in_range_bound [OF assms(7) assms(3)],
        rule in_range_bound [OF assms(8) assms(4)], rule in_range_bound [OF assms(9) assms(5)])
  have small: "(2::real) ^ 510 < float_ovf"
    by (simp add: float_ovf_def)
  have x1: "\<bar>x1\<bar> < float_ovf" and y1: "\<bar>y1\<bar> < float_ovf"
    and x2: "\<bar>x2\<bar> < float_ovf" and y2: "\<bar>y2\<bar> < float_ovf"
    using b small by linarith+
  have "\<bar>x2 - x1\<bar> \<le> 2 ^ 511" and "\<bar>y2 - y1\<bar> \<le> 2 ^ 511"
    using b by simp_all
  then have "\<bar>x2 - x1\<bar> ^ 2 \<le> (2 ^ 511) ^ 2" and "\<bar>y2 - y1\<bar> ^ 2 \<le> (2 ^ 511) ^ 2"
    by (simp_all only: power_mono abs_ge_zero)
  then have sq: "(x2 - x1) ^ 2 \<le> 2 ^ 1022" "(y2 - y1) ^ 2 \<le> 2 ^ 1022"
    by simp_all
  have top: "(2::real) ^ 1022 + 2 ^ 1022 < float_ovf"
    by (simp add: float_ovf_def)
  have pos: "(0::real) < 2 ^ 1022"
    by simp
  have dx2: "(x2 - x1) ^ 2 < float_ovf" and dy2: "(y2 - y1) ^ 2 < float_ovf"
    using sq top pos by linarith+
  have dx: "fsub (Fin x2) (Fin x1) = Fin (x2 - x1)"
    using sq_below_ovf [OF dx2] by (simp add: fsub_def fl_in_range)
  have dy: "fsub (Fin y2) (Fin y1) = Fin (y2 - y1)"
    using sq_below_ovf [OF dy2] by (simp add: fsub_def fl_in_range)
  have nonneg: "0 \<le> (x2 - x1) ^ 2 + (y2 - y1) ^ 2"
    by simp
  have "\<bar>(x2 - x1) ^ 2 + (y2 - y1) ^ 2\<bar> < float_ovf"
    using sq top nonneg by linarith
  then have sum: "fl ((x2 - x1) ^ 2 + (y2 - y1) ^ 2) = Fin ((x2 - x1) ^ 2 + (y2 - y1) ^ 2)"
    by (rule fl_in_range)
  have "result_of (solve req) = result_of (solve_coordinate_geometry (topic req) (payload req))"
    using assms(1) by (simp add: solve_def)
  also have "\<dots> = Inr (JFloat (Fin (sqrt ((x2 - x1) ^ 2 + (y2 - y1) ^ 2))))"
    using dx2 dy2
    by (simp add: coordinate_result
        py_float_num_val [OF assms(2) x1] py_float_num_val [OF assms(3) y1]
        py_float_num_val [OF assms(4) x2] py_float_num_val [OF assms(5) y2]
        dx dy sum)
  finally show ?thesis .
qed

lemma sqrt_25: "sqrt 25 = 5"
  by (simp add: real_sqrt_unique)

theorem coordinate_distance_witness:
  "result_of (solve \<lparr>topic = ''coordinate-geometry'', sample_id = None,
       data = Some [(''x1'', JInt 1), (''y1'', JInt 2), (''x2'', JInt 4), (''y2'', JInt 6)]\<rparr>)
     = Inr (JFloat (Fin 5))
   \<and> result_of (solve \<lparr>topic = ''coordinate-geometry'', sample_id = None,
       data = Some [(''x2'', JFloat (Fin 3)), (''y1'', JInt 4)]\<rparr>)
     = Inr (JFloat (Fin 5))
   \<and> result_of (solve \<lparr>topic = ''coordinate-geometry'', sample_id = None, data = None\<rparr>)
     = Inr (JFloat (Fin 0))"
  using coordinate_distance
      [where req = "\<lparr>topic = ''coordinate-geometry'', sample_id = None,
           data = Some [(''x1'', JInt 1), (''y1'', JInt 2), (''x2'', JInt 4), (''y2'', JInt 6)]\<rparr>"
         and ?x1.0 = 1 and ?y1.0 = 2 and ?x2.0 = 4 and ?y2.0 = 6]
    coordinate_distance
      [where req = "\<lparr>topic = ''coordinate-geometry'', sample_id = None,
           data = Some [(''x2'', JFloat (Fin 3)), (''y1'', JInt 4)]\<rparr>"
         and ?x1.0 = 0 and ?y1.0 = 4 and ?x2.0 = 3 and ?y2.0 = 0]
    coordinate_distance
      [where req = "\<lparr>topic = ''coordinate-geometry'', sample_id = None, data = None\<rparr>"
         and ?x1.0 = 0 and ?y1.0 = 0 and ?x2.0 = 0 and ?y2.0 = 0]
  by (simp add: payload_def dict_get_def sqrt_25)

text \<open>
  On larger numbers the branch fails: \<^verbatim>\<open>float\<close> of the integer \<open>10^400\<close> raises
  \<^verbatim>\<open>OverflowError\<close>, and so does the square of the float \<open>1e200\<close>.
\<close>

theorem coordinate_overflow_counterexample:
  "solve \<lparr>topic = ''coordinate-geometry'', sample_id = None,
          data = Some [(''x1'', JInt (10 ^ 400))]\<rparr> = Inl OverflowError
   \<and> solve \<lparr>topic = ''coordinate-geometry'', sample_id = None,
          data = Some [(''x2'', JFloat (Fin (10 ^ 200)))]\<rparr> = Inl OverflowError"
  by (simp add: solve_def payload_def solve_coordinate_geometry_def dict_get_def
      int_to_float_def float_ovf_def fsub_def fl_def)

text \<open>
  C6. For any four numbers, ints or floats, \<open>solve\<close> gives the same result for the points
  \<open>(a, b)\<close>, \<open>(c, d)\<close> as for the points \<open>(c, d)\<close>, \<open>(a, b)\<close>; where one request fails,
  the other fails with the same exception.
\<close>

theorem coordinate_symmetric:
  assumes "is_number a" and "is_number b" and "is_number c" and "is_number d"
  shows "result_of (solve \<lparr>topic = ''coordinate-geometry'', sample_id = sid,
            data = Some [(''x1'', a), (''y1'', b), (''x2'', c), (''y2'', d)]\<rparr>)
       = result_of (solve \<lparr>topic = ''coordinate-geometry'', sample_id = sid,
            data = Some [(''x1'', c), (''y1'', d), (''x2'', a), (''y2'', b)]\<rparr>)"
proof -
  have swap: "float_sq (fsub p q) = float_sq (fsub q p)" for p q
    using fsub_swap [of p q] by (simp add: float_sq_fneg)
  have core: "andThen (float_sq (fsub fc fa)) (\<lambda>dx2.
        andThen (float_sq (fsub fd fb)) (\<lambda>dy2.
        andThen (float_root (fadd dx2 dy2)) (\<lambda>distance. Inr (JFloat distance))))
      = andThen (float_sq (fsub fa fc)) (\<lambda>dx2.
        andThen (float_sq (fsub fb fd)) (\<lambda>dy2.
        andThen (float_root (fadd dx2 dy2)) (\<lambda>distance. Inr (JFloat distance))))"
    for fa fb fc fd
    by (simp add: swap [of fc fa] swap [of fd fb])
  show ?thesis
    using py_float_number [OF assms(1)] py_float_number [OF assms(2)]
      py_float_number [OF assms(3)] py_float_number [OF assms(4)]
    by (auto simp add: solve_def payload_def coordinate_result dict_get_def core)
qed

theorem coordinate_symmetric_witness:
  "result_of (solve \<lparr>topic = ''coordinate-geometry'', sample_id = None,
            data = Some [(''x1'', JInt 1), (''y1'', JInt 2),
                         (''x2'', JFloat (Fin 4)), (''y2'', JInt 6)]\<rparr>)
       = result_of (solve \<lparr>topic = ''coordinate-geometry'', sample_id = None,
            data = Some [(''x1'', JFloat (Fin 4)), (''y1'', JInt 6),
                         (''x2'', JInt 1), (''y2'', JInt 2)]\<rparr>)"
  using coordinate_symmetric [where a = "JInt 1" and b = "JInt 2" and c = "JFloat (Fin 4)"
      and d = "JInt 6" and sid = None]
  by simp

subsection \<open>matrices: what is rejected\<close>

lemma all_rows_len2_lists:
  "\<forall>r\<in>set rows. is_list r \<Longrightarrow>
     all_rows_len2 rows = Inr (\<forall>r\<in>set rows. py_len r = Inr 2)"
proof (induction rows)
  case Nil
  then show ?case by simp
next
  case (Cons row rows)
  then obtain xs where "row = JList xs"
    by (cases row) simp_all
  with Cons show ?case by simp
qed

lemma is_2x2_pair_lists:
  assumes "\<forall>r\<in>set (ra @ rb). is_list r"
  shows "is_2x2_pair ra rb
     = Inr (length ra = 2 \<and> length rb = 2 \<and> (\<forall>r\<in>set (ra @ rb). py_len r = Inr 2))"
proof -
  have a: "all_rows_len2 ra = Inr (\<forall>r\<in>set ra. py_len r = Inr 2)"
    using assms by (intro all_rows_len2_lists) simp
  have b: "all_rows_len2 rb = Inr (\<forall>r\<in>set rb. py_len r = Inr 2)"
    using assms by (intro all_rows_len2_lists) simp
  show ?thesis
    by (auto simp add: is_2x2_pair_def a b)
qed

text \<open>
  C3, as the code has it. When \<open>A\<close> or \<open>B\<close> is missing or is not a list, \<open>solve\<close> raises
  the HTTP 400 exception with detail \<open>A and B must be 2x2 lists\<close>. When both are lists,
  every row of both is a list, and some dimension is not \<open>2\<close>, it raises the HTTP 400
  exception with detail \<open>Only 2x2 matrices are supported in this demo\<close>.
\<close>

theorem matrices_rejects:
  assumes "topic req = ''matrices''"
  shows "(\<not> is_list (dict_get (payload req) ''A'' JNull)
          \<or> \<not> is_list (dict_get (payload req) ''B'' JNull) \<longrightarrow>
            solve req = Inl (HTTPException 400 ''A and B must be 2x2 lists''))
       \<and> (dict_get (payload req) ''A'' JNull = JList ra
          \<and> dict_get (payload req) ''B'' JNull = JList rb
          \<and> (\<forall>r\<in>set (ra @ rb). is_list r)
          \<and> \<not> (length ra = 2 \<and> length rb = 2 \<and> (\<forall>r\<in>set (ra @ rb). py_len r = Inr 2)) \<longrightarrow>
            solve req = Inl (HTTPException 400 ''Only 2x2 matrices are supported in this demo''))"
proof (intro conjI impI)
  assume "\<not> is_list (dict_get (payload req) ''A'' JNull)
          \<or> \<not> is_list (dict_get (payload req) ''B'' JNull)"
  then show "solve req = Inl (HTTPException 400 ''A and B must be 2x2 lists'')"
    using assms
    by (cases "dict_get (payload req) ''A'' JNull"; cases "dict_get (payload req) ''B'' JNull")
       (simp_all add: solve_def solve_matrices_def)
next
  assume h: "dict_get (payload req) ''A'' JNull = JList ra
          \<and> dict_get (payload req) ''B'' JNull = JList rb
          \<and> (\<forall>r\<in>set (ra @ rb). is_list r)
          \<and> \<not> (length ra = 2 \<and> length rb = 2 \<and> (\<forall>r\<in>set (ra @ rb). py_len r = Inr 2))"
  then have "is_2x2_pair ra rb = Inr False"
    using is_2x2_pair_lists [of ra rb] by simp
  with h show "solve req
      = Inl (HTTPException 400 ''Only 2x2 matrices are supported in this demo'')"
    using assms by (simp add: solve_def solve_matrices_def)
qed

theorem matrices_rejects_witness:
  "solve \<lparr>topic = ''matrices'', sample_id = None, data = None\<rparr>
     = Inl (HTTPException 400 ''A and B must be 2x2 lists'')
   \<and> solve \<lparr>topic = ''matrices'', sample_id = None,
        data = Some [(''A'', JList [JList [JInt 1, JInt 2], JList [JInt 3, JInt 4]]),
                     (''B'', JStr ''ab'')]\<rparr>
     = Inl (HTTPException 400 ''A and B must be 2x2 lists'')
   \<and> solve \<lparr>topic = ''matrices'', sample_id = None,
        data = Some [(''A'', JList [JList [JInt 1, JInt 2, JInt 3], JList [JInt 4, JInt 5, JInt 6]]),
                     (''B'', JList [JList [JInt 1, JInt 0], JList [JInt 0, JInt 1]])]\<rparr>
     = Inl (HTTPException 400 ''Only 2x2 matrices are supported in this demo'')"
  using matrices_rejects
      [where req = "\<lparr>topic = ''matrices'', sample_id = None, data = None\<rparr>"]
    matrices_rejects
      [where req = "\<lparr>topic = ''matrices'', sample_id = None,
        data = Some [(''A'', JList [JList [JInt 1, JInt 2], JList [JInt 3, JInt 4]]),
                     (''B'', JStr ''ab'')]\<rparr>"]
    matrices_rejects
      [where req = "\<lparr>topic = ''matrices'', sample_id = None,
        data = Some [(''A'', JList [JList [JInt 1, JInt 2, JInt 3], JList [JInt 4, JInt 5, JInt 6]]),
                     (''B'', JList [JList [JInt 1, JInt 0], JList [JInt 0, JInt 1]])]\<rparr>"
        and ra = "[JList [JInt 1, JInt 2, JInt 3], JList [JInt 4, JInt 5, JInt 6]]"
        and rb = "[JList [JInt 1, JInt 0], JList [JInt 0, JInt 1]]"]
  by (simp add: payload_def dict_get_def)

text \<open>
  A row that has no length is not rejected that way: with \<open>A = [1, 2]\<close> the call
  \<^verbatim>\<open>len(row)\<close> raises \<^verbatim>\<open>TypeError\<close>. And the detail for a 2x3 matrix is not the string
  \<open>A and B must be 2x2\<close>.
\<close>

theorem matrices_type_error_counterexample:
  "solve \<lparr>topic = ''matrices'', sample_id = None,
        data = Some [(''A'', JList [JInt 1, JInt 2]),
                     (''B'', JList [JList [JInt 1, JInt 0], JList [JInt 0, JInt 1]])]\<rparr>
     = Inl TypeError
   \<and> solve \<lparr>topic = ''matrices'', sample_id = None,
        data = Some [(''A'', JList [JList [JInt 1, JInt 2, JInt 3], JList [JInt 4, JInt 5, JInt 6]]),
                     (''B'', JList [JList [JInt 1, JInt 0], JList [JInt 0, JInt 1]])]\<rparr>
     \<noteq> Inl (HTTPException 400 ''A and B must be 2x2'')"
  by (simp add: solve_def payload_def solve_matrices_def dict_get_def is_2x2_pair_def)

subsection \<open>matrices: the product\<close>

















end
